theory Spec2Isabelle
  imports Complex_Main "HOL-Library.Multiset"
begin

section \<open>Numbers\<close>

text \<open>
  The pages compute with JavaScript numbers, which are IEEE doubles. Geometry, distances
  and means are read over the real numbers: their rounding, overflow to infinity,
  underflow to zero and NaN are outside the model. Counts and indices are natural
  numbers or integers. Each call of \<^verbatim>\<open>Math.random()\<close> is the next value of a stream
  \<open>rnd :: nat \<Rightarrow> real\<close>, and the functions that draw random numbers receive the index of
  the next unused value.

  Where the source turns a product of decimal constants into a count with
  \<^verbatim>\<open>Math.floor\<close>, the rounding decides the count, so there a double is the rational
  number it denotes and every operation rounds its exact result to the nearest double,
  ties to the even significand: \<open>to_double\<close>, for numbers in the normal range. \<open>binade\<close>
  finds the exponent \<open>e\<close> with \<open>2 ^ e \<le> x < 2 ^ (e + 1)\<close>, in at most as many steps as its
  first argument.
\<close>

definition round_half_even :: "rat \<Rightarrow> int" where
  "round_half_even q =
     (let f = \<lfloor>q\<rfloor>; r = q - of_int f
      in if r < 1 / 2 then f else if 1 / 2 < r then f + 1 else if even f then f else f + 1)"

fun binade :: "nat \<Rightarrow> rat \<Rightarrow> int \<Rightarrow> int" where
  "binade 0 x e = e"
| "binade (Suc n) x e =
     (if 2 \<le> x then binade n (x / 2) (e + 1)
      else if x < 1 then binade n (x * 2) (e - 1)
      else e)"

definition pow2 :: "int \<Rightarrow> rat" where
  "pow2 e = (if 0 \<le> e then 2 ^ nat e else 1 / 2 ^ nat (- e))"

definition to_double :: "rat \<Rightarrow> rat" where
  "to_double x =
     (if x = 0 then 0
      else let e = binade 1100 \<bar>x\<bar> 0; u = pow2 (e - 52)
           in sgn x * of_int (round_half_even (\<bar>x\<bar> / u)) * u)"

section \<open>The monotone-chain convex hull (dbscan.tsx)\<close>

text \<open>
  A point is the object \<^verbatim>\<open>{ x: number; y: number }\<close>; its fields are called \<open>px\<close> and
  \<open>py\<close> here.
\<close>

record point =
  px :: real
  py :: real

text \<open>
  \<^verbatim>\<open>const cross = (o, a, b) => (a.x - o.x) * (b.y - o.y) - (a.y - o.y) * (b.x - o.x)\<close>
\<close>

definition cross :: "point \<Rightarrow> point \<Rightarrow> point \<Rightarrow> real" where
  "cross c a b = (px a - px c) * (py b - py c) - (py a - py c) * (px b - px c)"

text \<open>
  The comparator handed to \<^verbatim>\<open>sort\<close>:
  \<^verbatim>\<open>(a, b) => (a.x === b.x ? a.y - b.y : a.x - b.x)\<close>
\<close>

definition compare_xy :: "point \<Rightarrow> point \<Rightarrow> real" where
  "compare_xy a b = (if px a = px b then py a - py b else px a - px b)"

text \<open>
  \<^verbatim>\<open>Array.prototype.sort\<close> with a comparator is a stable sort: an element ends up in
  front of another exactly when the comparator puts it there, or when the two compare
  equal and it came first. A stable insertion sort computes the same array.
\<close>

fun insert_by :: "('a \<Rightarrow> 'a \<Rightarrow> real) \<Rightarrow> 'a \<Rightarrow> 'a list \<Rightarrow> 'a list" where
  "insert_by cmp v [] = [v]"
| "insert_by cmp v (w # ws) = (if cmp v w \<le> 0 then v # w # ws else w # insert_by cmp v ws)"

definition sort_by :: "('a \<Rightarrow> 'a \<Rightarrow> real) \<Rightarrow> 'a list \<Rightarrow> 'a list" where
  "sort_by cmp vs = foldr (insert_by cmp) vs []"

text \<open>
  The arrays \<^verbatim>\<open>lower\<close> and \<^verbatim>\<open>upper\<close> are used as stacks. The model keeps a stack with
  its last array element at the head of the list, so the array itself is the reversed
  list. \<open>pop_while\<close> is the inner loop
  \<^verbatim>\<open>while (lower.length >= 2 && cross(lower[lower.length - 2], lower[lower.length - 1], p) <= 0) lower.pop()\<close>,
  \<open>hull_step\<close> is one round of the outer loop, ending in \<^verbatim>\<open>lower.push(p)\<close>, and
  \<open>chain\<close> runs the outer loop over the points it is given and returns the array.
\<close>

fun pop_while :: "point list \<Rightarrow> point \<Rightarrow> point list" where
  "pop_while (b # a # st) p = (if cross a b p \<le> 0 then pop_while (a # st) p else b # a # st)"
| "pop_while st p = st"

definition hull_step :: "point list \<Rightarrow> point \<Rightarrow> point list" where
  "hull_step st p = p # pop_while st p"

definition chain :: "point list \<Rightarrow> point list" where
  "chain ps = rev (foldl hull_step [] ps)"

text \<open>
  \<^verbatim>\<open>computeConvexHull\<close>: the guard on the length, the copy and sort, the lower chain over
  the sorted points, the upper chain over them from the last to the first, then
  \<^verbatim>\<open>upper.pop(); lower.pop(); return lower.concat(upper)\<close>.
\<close>

definition computeConvexHull :: "point list \<Rightarrow> point list" where
  "computeConvexHull points =
     (if length points < 3 then points
      else
        let sorted = sort_by compare_xy (map (\<lambda>p. \<lparr>px = px p, py = py p\<rparr>) points);
            lower = chain sorted;
            upper = chain (rev sorted)
        in butlast lower @ butlast upper)"

subsection \<open>Notions used to state and prove the hull's properties\<close>












section \<open>The DBSCAN page (dbscan.tsx)\<close>

text \<open>
  \<^verbatim>\<open>const TOTAL_POINTS = 200\<close> and \<^verbatim>\<open>const NOISE_RATIO = 0.1\<close>: the literal
  \<^verbatim>\<open>0.1\<close> is the double nearest to one tenth.
\<close>

definition TOTAL_POINTS :: rat where
  "TOTAL_POINTS = 200"

definition NOISE_RATIO :: rat where
  "NOISE_RATIO = to_double (1 / 10)"

text \<open>
  One point of \<^verbatim>\<open>generateClusterData\<close>'s inner loop, from its centre and its two random
  draws (the angle first, then the distance).
\<close>

definition cluster_point :: "point \<Rightarrow> real \<Rightarrow> real \<Rightarrow> point" where
  "cluster_point center r1 r2 =
     (let angle = r1 * pi * 2; distance = r2 * 0.3
      in \<lparr>px = max (- 1) (min 1 (px center + cos angle * distance)),
          py = max (- 1) (min 1 (py center + sin angle * distance))\<rparr>)"

text \<open>
  \<^verbatim>\<open>generateClusterData(numClusters, clusterPointCount)\<close>: the first loop draws two
  numbers for each centre, the nested loops two for each point.
  \<^verbatim>\<open>Math.floor(clusterPointCount / numClusters)\<close> is the integer quotient of the two
  counts (the rounded quotient of two integers is never on the other side of an integer
  than the exact one); with no cluster at all both loops are empty, in the source and
  here.
\<close>

definition generateClusterData :: "(nat \<Rightarrow> real) \<Rightarrow> nat \<Rightarrow> nat \<Rightarrow> point list" where
  "generateClusterData rnd numClusters clusterPointCount =
     (let clusterCenters =
            map (\<lambda>i. \<lparr>px = rnd (2 * i) * 1.6 - 0.8, py = rnd (2 * i + 1) * 1.6 - 0.8\<rparr>)
              [0..<numClusters];
          pointsPerCluster = clusterPointCount div numClusters
      in concat
           (map (\<lambda>i. map (\<lambda>j. cluster_point (clusterCenters ! i)
                                (rnd (2 * numClusters + 2 * (i * pointsPerCluster + j)))
                                (rnd (2 * numClusters + 2 * (i * pointsPerCluster + j) + 1)))
                         [0..<pointsPerCluster])
              [0..<numClusters]))"

text \<open>
  The memoised \<^verbatim>\<open>clusterPoints\<close> of the page, with
  \<^verbatim>\<open>Math.floor(TOTAL_POINTS * (1 - NOISE_RATIO))\<close>, and the \<^verbatim>\<open>noisePoints\<close>, with
  \<^verbatim>\<open>Math.floor(TOTAL_POINTS * NOISE_RATIO)\<close>, and \<^verbatim>\<open>allPoints\<close> of
  \<^verbatim>\<open>fetchLabeledPoints\<close>.
\<close>

definition clusterPoints :: "(nat \<Rightarrow> real) \<Rightarrow> nat \<Rightarrow> point list" where
  "clusterPoints rnd numClusters =
     (let clusterPointCount = nat \<lfloor>to_double (TOTAL_POINTS * to_double (1 - NOISE_RATIO))\<rfloor>
      in generateClusterData rnd numClusters clusterPointCount)"

definition noisePoints :: "(nat \<Rightarrow> real) \<Rightarrow> point list" where
  "noisePoints rnd =
     (let noiseCount = nat \<lfloor>to_double (TOTAL_POINTS * NOISE_RATIO)\<rfloor>
      in map (\<lambda>i. \<lparr>px = rnd (2 * i) * 2 - 1, py = rnd (2 * i + 1) * 2 - 1\<rparr>) [0..<noiseCount])"

definition allPoints :: "(nat \<Rightarrow> real) \<Rightarrow> (nat \<Rightarrow> real) \<Rightarrow> nat \<Rightarrow> point list" where
  "allPoints rnd rnd' numClusters = clusterPoints rnd numClusters @ noisePoints rnd'"

text \<open>
  The state \<^verbatim>\<open>labeledPoints\<close> holds objects \<^verbatim>\<open>{ x; y; cluster }\<close>.
\<close>

record labeled = point +
  cluster :: int

text \<open>
  What \<^verbatim>\<open>fetch\<close> and \<^verbatim>\<open>res.json()\<close> can give back: the request is rejected, or there is
  a response with its \<^verbatim>\<open>ok\<close> flag and status whose body does or does not parse. A parsed
  body is read at the type the interface gives it, an object whose \<^verbatim>\<open>labels\<close> is an
  array of numbers or is missing.
\<close>

datatype 'a json_result = ParseError | Parsed 'a

record dbscan_response =
  labels :: "int list option"

datatype fetch_result =
  Rejected | Responded (ok: bool) (status: nat) (json: "dbscan_response json_result")

text \<open>
  \<^verbatim>\<open>allPoints.map((pt, i) => ({ ...pt, cluster: data.labels[i] }))\<close>
\<close>

definition label_points :: "point list \<Rightarrow> int list \<Rightarrow> labeled list" where
  "label_points pts ls =
     map (\<lambda>(pt, i). \<lparr>px = px pt, py = py pt, cluster = ls ! i\<rparr>) (zip pts [0..<length pts])"

text \<open>
  \<^verbatim>\<open>fetchLabeledPoints\<close> after the request has been sent: the new value of the state
  \<^verbatim>\<open>labeledPoints\<close>. Every early \<^verbatim>\<open>return\<close> and the \<^verbatim>\<open>catch\<close> leave the state as it
  was; only the last line calls \<^verbatim>\<open>setLabeledPoints\<close>.
\<close>

definition fetchLabeledPoints :: "labeled list \<Rightarrow> point list \<Rightarrow> fetch_result \<Rightarrow> labeled list" where
  "fetchLabeledPoints labeledPoints pts res =
     (case res of
        Rejected \<Rightarrow> labeledPoints
      | Responded okay st body \<Rightarrow>
          if \<not> okay then labeledPoints
          else (case body of
                  ParseError \<Rightarrow> labeledPoints
                | Parsed data \<Rightarrow>
                    (case labels data of
                       None \<Rightarrow> labeledPoints
                     | Some ls \<Rightarrow>
                         if length ls \<noteq> length pts then labeledPoints
                         else label_points pts ls)))"

text \<open>
  \<^verbatim>\<open>renderDBSCAN\<close> groups the labelled points in a \<^verbatim>\<open>Map\<close> from cluster id to the array
  of its points. \<open>group_point\<close> is one round of the loop: the test \<^verbatim>\<open>pt.cluster !== -1\<close>,
  the \<^verbatim>\<open>set\<close> of an empty array for a new id, then the \<^verbatim>\<open>push\<close>.
\<close>

definition group_point :: "(int \<rightharpoonup> labeled list) \<Rightarrow> labeled \<Rightarrow> (int \<rightharpoonup> labeled list)" where
  "group_point clusters pt =
     (if cluster pt \<noteq> - 1 then
        (let clusters' = (if clusters (cluster pt) = None then clusters(cluster pt \<mapsto> []) else clusters)
         in case clusters' (cluster pt) of
              Some points \<Rightarrow> clusters'(cluster pt \<mapsto> points @ [pt])
            | None \<Rightarrow> clusters')
      else clusters)"

definition cluster_map :: "labeled list \<Rightarrow> (int \<rightharpoonup> labeled list)" where
  "cluster_map labeledPoints = foldl group_point Map.empty labeledPoints"

text \<open>
  The overlay of one cluster: \<^verbatim>\<open>computeConvexHull(points)\<close> reads the coordinates of the
  cluster's points, and \<^verbatim>\<open>if (hull.length < 3) return\<close> draws nothing for a smaller
  result.
\<close>

definition xy :: "labeled \<Rightarrow> point" where
  "xy p = \<lparr>px = px p, py = py p\<rparr>"

definition hull_overlay :: "labeled list \<Rightarrow> int \<Rightarrow> point list option" where
  "hull_overlay labeledPoints clusterId =
     (case cluster_map labeledPoints clusterId of
        None \<Rightarrow> None
      | Some points \<Rightarrow>
          (let polygon = computeConvexHull (map xy points)
           in if length polygon < 3 then None else Some polygon))"

section \<open>The KNN page (knn.tsx)\<close>












section \<open>The K-Means page (plotlygraph.tsx)\<close>










section \<open>The SOM page (plotlygraph.tsx)\<close>





section \<open>The activation tables of the perceptron pages\<close>





section \<open>The tree-build request (decision-tree.tsx)\<close>

text \<open>
  The page's \<^verbatim>\<open>params\<close>, and what it hands to \<^verbatim>\<open>fetch\<close>: the address, the method and
  the fields of the JSON body. The address is written between double quotes,
  \<^verbatim>\<open>fetch("${process.env.NEXT_PUBLIC_API_URL}/build_tree", ...)\<close>, so it is that text as
  it stands; the forest page writes the same address between backquotes,
  \<^verbatim>\<open>fetch(`${process.env.NEXT_PUBLIC_API_URL}/build_forest`, ...)\<close>, where the braces are
  replaced by the configured value.
\<close>

record tree_params =
  maxDepth :: nat
  minSamplesSplit :: nat
  criterion :: string
  treeHeight :: nat

record tree_request =
  url :: string
  http_method :: string
  body_dataset :: string
  body_max_depth :: nat
  body_min_samples_split :: nat
  body_criterion :: string

definition build_tree_request :: "string \<Rightarrow> string \<Rightarrow> tree_params \<Rightarrow> tree_request" where
  "build_tree_request api_url selectedDataset params =
     \<lparr>url = ''${process.env.NEXT_PUBLIC_API_URL}/build_tree'',
      http_method = ''POST'',
      body_dataset = selectedDataset,
      body_max_depth = maxDepth params,
      body_min_samples_split = minSamplesSplit params,
      body_criterion = criterion params\<rparr>"

definition build_forest_url :: "string \<Rightarrow> string" where
  "build_forest_url api_url = api_url @ ''/build_forest''"

section \<open>Lemmas about the convex hull\<close>

subsection \<open>The order of the sort and the cross product\<close>














subsection \<open>Sorting\<close>


lemma mset_insert_by: "mset (insert_by cmp v ws) = add_mset v (mset ws)"
  by (induction ws) auto

lemma mset_sort_by: "mset (sort_by cmp vs) = mset vs"
  by (induction vs) (auto simp: sort_by_def mset_insert_by)





lemma set_sort_by: "set (sort_by cmp vs) = set vs"
  using mset_sort_by [of cmp vs] mset_eq_setD by blast



subsection \<open>Reflection and the two walks along a chain\<close>















subsection \<open>The stack of the chain\<close>





lemma pop_while_subset: "set (pop_while st p) \<subseteq> set st"
  by (induction st p rule: pop_while.induct) auto









subsection \<open>Both chains of the sorted points\<close>




subsection \<open>The polygon\<close>

text \<open>
  The returned polygon is the lower chain without its last vertex followed by the upper
  chain without its last vertex; the vertex dropped from each is the first of the other.
  So going once around the polygon is walking both chains.
\<close>

lemma copy_points: "map (\<lambda>p. \<lparr>px = px p, py = py p\<rparr>) points = (points :: point list)"
  by (induction points) simp_all




subsection \<open>Strict convexity\<close>











text \<open>
  The vertices of the result are input points, whatever the input.
\<close>

lemma foldl_hull_step_subset: "set (foldl hull_step st ps) \<subseteq> set st \<union> set ps"
proof (induction ps arbitrary: st)
  case Nil
  then show ?case by simp
next
  case (Cons p ps)
  have "set (hull_step st p) \<subseteq> insert p (set st)"
    using pop_while_subset [of st p] by (auto simp: hull_step_def)
  then show ?case using Cons.IH [of "hull_step st p"] by auto
qed

lemma chain_subset: "set (chain ps) \<subseteq> set ps"
  using foldl_hull_step_subset [of "[]" ps] by (simp add: chain_def)

lemma hull_subset: "set (computeConvexHull points) \<subseteq> set points"
proof (cases "length points < 3")
  case True
  then show ?thesis by (simp add: computeConvexHull_def)
next
  case False
  have "set (butlast (chain (sort_by compare_xy points))) \<subseteq> set points"
    using in_set_butlastD chain_subset set_sort_by by fastforce
  moreover have "set (butlast (chain (rev (sort_by compare_xy points)))) \<subseteq> set points"
    using in_set_butlastD chain_subset [of "rev (sort_by compare_xy points)"] set_sort_by
    by fastforce
  ultimately show ?thesis using False by (simp add: computeConvexHull_def Let_def copy_points)
qed

section \<open>Lemmas about the DBSCAN page\<close>

text \<open>
  The number of generated points, and the two counts of the page in double arithmetic.
\<close>

lemma length_generateClusterData:
  "length (generateClusterData rnd n c) = n * (c div n)"
  by (simp add: generateClusterData_def Let_def length_concat comp_def sum_list_triv)

lemma noise_ratio_double: "NOISE_RATIO = 3602879701896397 / 36028797018963968"
  unfolding NOISE_RATIO_def by code_simp

lemma clusterPointCount_double:
  "nat \<lfloor>to_double (TOTAL_POINTS * to_double (1 - NOISE_RATIO))\<rfloor> = 180"
  by code_simp

lemma noiseCount_double: "nat \<lfloor>to_double (TOTAL_POINTS * NOISE_RATIO)\<rfloor> = 20"
  by code_simp

text \<open>
  Every array of the map belongs to an id other than -1 and holds points of that id.
\<close>

lemma group_point_members:
  assumes "\<forall>k ms. clusters k = Some ms \<longrightarrow> k \<noteq> - 1 \<and> (\<forall>q\<in>set ms. q \<in> S \<and> cluster q = k)"
  shows "\<forall>k ms. group_point clusters pt k = Some ms \<longrightarrow>
           k \<noteq> - 1 \<and> (\<forall>q\<in>set ms. q \<in> insert pt S \<and> cluster q = k)"
  using assms by (auto simp: group_point_def Let_def split: if_splits option.splits)

lemma foldl_group_point_members:
  "\<forall>k ms. clusters k = Some ms \<longrightarrow> k \<noteq> - 1 \<and> (\<forall>q\<in>set ms. q \<in> S \<and> cluster q = k)
   \<Longrightarrow> foldl group_point clusters pts k = Some ms
   \<Longrightarrow> k \<noteq> - 1 \<and> (\<forall>q\<in>set ms. q \<in> S \<union> set pts \<and> cluster q = k)"
proof (induction pts arbitrary: clusters S)
  case Nil
  then show ?case by simp
next
  case (Cons pt pts)
  have "k \<noteq> - 1 \<and> (\<forall>q\<in>set ms. q \<in> insert pt S \<union> set pts \<and> cluster q = k)"
    using Cons.IH [OF group_point_members [OF Cons.prems(1)]] Cons.prems(2) by simp
  then show ?case by simp
qed

lemma cluster_map_members:
  "cluster_map lps k = Some ms \<Longrightarrow> k \<noteq> - 1 \<and> (\<forall>q\<in>set ms. q \<in> set lps \<and> cluster q = k)"
  using foldl_group_point_members [of Map.empty "{}" lps k ms] by (simp add: cluster_map_def)

lemma label_points_nth:
  "length ls = length pts \<Longrightarrow> i < length pts \<Longrightarrow>
   label_points pts ls ! i = \<lparr>px = px (pts ! i), py = py (pts ! i), cluster = ls ! i\<rparr>"
  by (simp add: label_points_def)

section \<open>Lemmas about the KNN page\<close>











section \<open>Lemmas about the K-Means page\<close>








section \<open>Results\<close>



text \<open>
  C2. A list of fewer than three points is returned as it is: the same points in the
  same order.
\<close>

theorem computeConvexHull_short:
  "length points < 3 \<Longrightarrow> computeConvexHull points = points"
  by (simp add: computeConvexHull_def)

theorem computeConvexHull_short_witness:
  "length [\<lparr>px = 1, py = 2\<rparr>, \<lparr>px = 0, py = 5\<rparr>] < 3 \<and>
   computeConvexHull [\<lparr>px = 1, py = 2\<rparr>, \<lparr>px = 0, py = 5\<rparr>] = [\<lparr>px = 1, py = 2\<rparr>, \<lparr>px = 0, py = 5\<rparr>]"
  using computeConvexHull_short [of "[\<lparr>px = 1, py = 2\<rparr>, \<lparr>px = 0, py = 5\<rparr>]"] by simp

text \<open>
  C3. A labelled point whose cluster is -1 is in the point array of no cluster. Every
  array of the map belongs to an id other than -1 and holds labelled points of that id
  only, and the vertices of every overlay that is drawn are coordinates of points of its
  own cluster: no noise point is handed to \<^verbatim>\<open>computeConvexHull\<close>.
\<close>

theorem noise_excluded_from_hulls:
  assumes "cluster pt = - 1"
  shows "(\<forall>k ms. cluster_map labeledPoints k = Some ms \<longrightarrow> pt \<notin> set ms) \<and>
         (\<forall>k poly. hull_overlay labeledPoints k = Some poly \<longrightarrow>
            k \<noteq> - 1 \<and> set poly \<subseteq> xy ` {q \<in> set labeledPoints. cluster q = k})"
proof (intro conjI allI impI)
  fix k ms assume "cluster_map labeledPoints k = Some ms"
  then have "k \<noteq> - 1" "\<forall>q\<in>set ms. cluster q = k" using cluster_map_members by blast+
  then show "pt \<notin> set ms" using assms by auto
next
  fix k poly assume h: "hull_overlay labeledPoints k = Some poly"
  then obtain ms where ms: "cluster_map labeledPoints k = Some ms"
    and p: "poly = computeConvexHull (map xy ms)"
    by (auto simp: hull_overlay_def Let_def split: option.splits if_splits)
  show "k \<noteq> - 1" using cluster_map_members [OF ms] by simp
  have "set poly \<subseteq> xy ` set ms" using p hull_subset [of "map xy ms"] by simp
  moreover have "set ms \<subseteq> {q \<in> set labeledPoints. cluster q = k}"
    using cluster_map_members [OF ms] by auto
  ultimately show "set poly \<subseteq> xy ` {q \<in> set labeledPoints. cluster q = k}" by blast
qed

theorem noise_excluded_from_hulls_witness:
  "cluster \<lparr>px = 1, py = 1, cluster = - 1\<rparr> = - 1 \<and>
   cluster_map [\<lparr>px = 0, py = 0, cluster = 0\<rparr>, \<lparr>px = 1, py = 1, cluster = - 1\<rparr>,
                \<lparr>px = 4, py = 0, cluster = 0\<rparr>, \<lparr>px = 0, py = 4, cluster = 0\<rparr>] 0
     = Some [\<lparr>px = 0, py = 0, cluster = 0\<rparr>, \<lparr>px = 4, py = 0, cluster = 0\<rparr>, \<lparr>px = 0, py = 4, cluster = 0\<rparr>] \<and>
   \<lparr>px = 1, py = 1, cluster = - 1\<rparr>
     \<notin> set [\<lparr>px = 0, py = 0, cluster = 0\<rparr>, \<lparr>px = 4, py = 0, cluster = 0\<rparr>, \<lparr>px = 0, py = 4, cluster = 0\<rparr>] \<and>
   hull_overlay [\<lparr>px = 0, py = 0, cluster = 0\<rparr>, \<lparr>px = 1, py = 1, cluster = - 1\<rparr>,
                 \<lparr>px = 4, py = 0, cluster = 0\<rparr>, \<lparr>px = 0, py = 4, cluster = 0\<rparr>] 0
     = Some [\<lparr>px = 0, py = 0\<rparr>, \<lparr>px = 4, py = 0\<rparr>, \<lparr>px = 0, py = 4\<rparr>] \<and>
   set [\<lparr>px = 0, py = 0\<rparr>, \<lparr>px = 4, py = 0\<rparr>, \<lparr>px = 0, py = 4\<rparr>]
     \<subseteq> xy ` {q \<in> set [\<lparr>px = 0, py = 0, cluster = 0\<rparr>, \<lparr>px = 1, py = 1, cluster = - 1\<rparr>,
                          \<lparr>px = 4, py = 0, cluster = 0\<rparr>, \<lparr>px = 0, py = 4, cluster = 0\<rparr>]. cluster q = 0}"
proof -
  have h: "cluster \<lparr>px = 1, py = 1, cluster = - 1\<rparr> = - 1" by simp
  have m: "cluster_map [\<lparr>px = 0, py = 0, cluster = 0\<rparr>, \<lparr>px = 1, py = 1, cluster = - 1\<rparr>,
                \<lparr>px = 4, py = 0, cluster = 0\<rparr>, \<lparr>px = 0, py = 4, cluster = 0\<rparr>] 0
     = Some [\<lparr>px = 0, py = 0, cluster = 0\<rparr>, \<lparr>px = 4, py = 0, cluster = 0\<rparr>, \<lparr>px = 0, py = 4, cluster = 0\<rparr>]"
    by (simp add: cluster_map_def group_point_def)
  have o: "hull_overlay [\<lparr>px = 0, py = 0, cluster = 0\<rparr>, \<lparr>px = 1, py = 1, cluster = - 1\<rparr>,
                 \<lparr>px = 4, py = 0, cluster = 0\<rparr>, \<lparr>px = 0, py = 4, cluster = 0\<rparr>] 0
     = Some [\<lparr>px = 0, py = 0\<rparr>, \<lparr>px = 4, py = 0\<rparr>, \<lparr>px = 0, py = 4\<rparr>]"
    unfolding hull_overlay_def m
    by (simp add: xy_def computeConvexHull_def sort_by_def chain_def hull_step_def cross_def compare_xy_def)
  show ?thesis
    using h m o noise_excluded_from_hulls [OF h] by (intro conjI) blast+
qed



text \<open>
  C5. The labelled points change all at once or not at all. When the request is rejected,
  the response is not ok, its body does not parse, it has no \<^verbatim>\<open>labels\<close>, or the number
  of labels differs from the number of points sent, the state stays as it was. Otherwise
  the state becomes the points sent, in their order, each with the label found at its own
  index.
\<close>

theorem fetchLabeledPoints_all_or_nothing:
  "fetchLabeledPoints st pts Rejected = st \<and>
   (\<not> okay \<or> body = ParseError \<or>
    (\<exists>d. body = Parsed d \<and>
         (labels d = None \<or> (\<exists>ls. labels d = Some ls \<and> length ls \<noteq> length pts)))
    \<longrightarrow> fetchLabeledPoints st pts (Responded okay code body) = st) \<and>
   (okay \<and> body = Parsed d \<and> labels d = Some ls \<and> length ls = length pts
    \<longrightarrow> fetchLabeledPoints st pts (Responded okay code body) = label_points pts ls \<and>
        length (label_points pts ls) = length pts \<and>
        (\<forall>i<length pts.
           label_points pts ls ! i = \<lparr>px = px (pts ! i), py = py (pts ! i), cluster = ls ! i\<rparr>))"
proof (intro conjI impI)
  show "fetchLabeledPoints st pts Rejected = st" by (simp add: fetchLabeledPoints_def)
next
  assume "\<not> okay \<or> body = ParseError \<or>
    (\<exists>d. body = Parsed d \<and>
         (labels d = None \<or> (\<exists>ls. labels d = Some ls \<and> length ls \<noteq> length pts)))"
  then show "fetchLabeledPoints st pts (Responded okay code body) = st"
    by (auto simp: fetchLabeledPoints_def)
next
  assume a: "okay \<and> body = Parsed d \<and> labels d = Some ls \<and> length ls = length pts"
  then show "fetchLabeledPoints st pts (Responded okay code body) = label_points pts ls"
    by (simp add: fetchLabeledPoints_def)
  show "length (label_points pts ls) = length pts" by (simp add: label_points_def)
  show "\<forall>i<length pts.
           label_points pts ls ! i = \<lparr>px = px (pts ! i), py = py (pts ! i), cluster = ls ! i\<rparr>"
    using a label_points_nth by blast
qed

theorem fetchLabeledPoints_all_or_nothing_witness:
  "fetchLabeledPoints [\<lparr>px = 9, py = 9, cluster = 7\<rparr>] [\<lparr>px = 1, py = 2\<rparr>, \<lparr>px = 3, py = 4\<rparr>]
     (Responded True 200 (Parsed \<lparr>labels = Some [0]\<rparr>)) = [\<lparr>px = 9, py = 9, cluster = 7\<rparr>] \<and>
   fetchLabeledPoints [\<lparr>px = 9, py = 9, cluster = 7\<rparr>] [\<lparr>px = 1, py = 2\<rparr>, \<lparr>px = 3, py = 4\<rparr>]
     (Responded False 500 (Parsed \<lparr>labels = Some [0, - 1]\<rparr>)) = [\<lparr>px = 9, py = 9, cluster = 7\<rparr>] \<and>
   fetchLabeledPoints [\<lparr>px = 9, py = 9, cluster = 7\<rparr>] [\<lparr>px = 1, py = 2\<rparr>, \<lparr>px = 3, py = 4\<rparr>]
     (Responded True 200 (Parsed \<lparr>labels = Some [0, - 1]\<rparr>))
     = [\<lparr>px = 1, py = 2, cluster = 0\<rparr>, \<lparr>px = 3, py = 4, cluster = - 1\<rparr>]"
proof -
  have a: "\<exists>d. Parsed \<lparr>labels = Some [0]\<rparr> = Parsed d \<and>
         (labels d = None \<or>
          (\<exists>ls. labels d = Some ls \<and> length ls \<noteq> length [\<lparr>px = 1, py = 2\<rparr>, \<lparr>px = 3, py = (4::real)\<rparr>]))"
    by simp
  have b: "\<not> False" by simp
  have c: "True \<and> Parsed \<lparr>labels = Some [0, - 1]\<rparr> = Parsed \<lparr>labels = Some [0, - 1]\<rparr> \<and>
           labels \<lparr>labels = Some [0, - 1]\<rparr> = Some [0, - 1] \<and>
           length [0, - 1 :: int] = length [\<lparr>px = 1, py = 2\<rparr>, \<lparr>px = 3, py = (4::real)\<rparr>]"
    by simp
  have v: "label_points [\<lparr>px = 1, py = 2\<rparr>, \<lparr>px = 3, py = 4\<rparr>] [0, - 1]
     = [\<lparr>px = 1, py = 2, cluster = 0\<rparr>, \<lparr>px = 3, py = 4, cluster = - 1\<rparr>]"
    by (simp add: label_points_def upt_rec)
  show ?thesis
    using a b c v
      fetchLabeledPoints_all_or_nothing
        [of "[\<lparr>px = 9, py = 9, cluster = 7\<rparr>]" "[\<lparr>px = 1, py = 2\<rparr>, \<lparr>px = 3, py = 4\<rparr>]"
            True "Parsed \<lparr>labels = Some [0]\<rparr>" 200 "\<lparr>labels = Some [0]\<rparr>" "[0]"]
      fetchLabeledPoints_all_or_nothing
        [of "[\<lparr>px = 9, py = 9, cluster = 7\<rparr>]" "[\<lparr>px = 1, py = 2\<rparr>, \<lparr>px = 3, py = 4\<rparr>]"
            False "Parsed \<lparr>labels = Some [0, - 1]\<rparr>" 500 "\<lparr>labels = Some [0, - 1]\<rparr>" "[0, - 1]"]
      fetchLabeledPoints_all_or_nothing
        [of "[\<lparr>px = 9, py = 9, cluster = 7\<rparr>]" "[\<lparr>px = 1, py = 2\<rparr>, \<lparr>px = 3, py = 4\<rparr>]"
            True "Parsed \<lparr>labels = Some [0, - 1]\<rparr>" 200 "\<lparr>labels = Some [0, - 1]\<rparr>" "[0, - 1]"]
    by (intro conjI) metis+
qed

text \<open>
  C6. The tree-build request is sent to the text
  \<^verbatim>\<open>${process.env.NEXT_PUBLIC_API_URL}/build_tree\<close> as it stands, not to the configured
  address followed by \<^verbatim>\<open>/build_tree\<close>; the forest page, which writes its address between
  backquotes, does get the configured address followed by \<^verbatim>\<open>/build_forest\<close>. The method
  and the body of the tree-build request are as described.
\<close>

theorem build_tree_url_not_interpolated:
  "url (build_tree_request ''http://localhost:8000'' ''iris''
          \<lparr>maxDepth = 3, minSamplesSplit = 2, criterion = ''gini'', treeHeight = 600\<rparr>)
     = ''${process.env.NEXT_PUBLIC_API_URL}/build_tree'' \<and>
   url (build_tree_request ''http://localhost:8000'' ''iris''
          \<lparr>maxDepth = 3, minSamplesSplit = 2, criterion = ''gini'', treeHeight = 600\<rparr>)
     \<noteq> ''http://localhost:8000'' @ ''/build_tree'' \<and>
   build_forest_url ''http://localhost:8000'' = ''http://localhost:8000'' @ ''/build_forest'' \<and>
   build_tree_request ''http://localhost:8000'' ''iris''
          \<lparr>maxDepth = 3, minSamplesSplit = 2, criterion = ''gini'', treeHeight = 600\<rparr>
     = \<lparr>url = ''${process.env.NEXT_PUBLIC_API_URL}/build_tree'', http_method = ''POST'',
        body_dataset = ''iris'', body_max_depth = 3, body_min_samples_split = 2,
        body_criterion = ''gini''\<rparr>"
  by (simp add: build_tree_request_def build_forest_url_def)

text \<open>
  C7. For every number of clusters from 1 to 5 the generated sample has 180 cluster
  points, which is \<open>\<lfloor>200 * 0.9 / numClusters\<rfloor> * numClusters\<close>, and \<open>\<lfloor>200 * 0.1\<rfloor> = 20\<close>
  noise points, each with both coordinates drawn as \<open>2 * r - 1\<close> from a random \<open>r\<close>; the
  noise points are a tenth of the 200 points. The two counts are the ones double
  arithmetic gives.
\<close>

theorem dbscan_sample_counts:
  assumes "1 \<le> numClusters" and "numClusters \<le> 5"
  shows "length (clusterPoints rnd numClusters) = 180 \<and>
         length (clusterPoints rnd numClusters)
           = nat \<lfloor>(200::real) * 0.9 / real numClusters\<rfloor> * numClusters \<and>
         length (noisePoints rnd') = 20 \<and>
         length (noisePoints rnd') = nat \<lfloor>(200::real) * 0.1\<rfloor> \<and>
         (\<forall>i<20. noisePoints rnd' ! i = \<lparr>px = rnd' (2 * i) * 2 - 1, py = rnd' (2 * i + 1) * 2 - 1\<rparr>) \<and>
         length (allPoints rnd rnd' numClusters) = 200 \<and>
         real (length (noisePoints rnd')) / real (length (allPoints rnd rnd' numClusters)) = 1 / 10"
proof -
  have n: "numClusters = 1 \<or> numClusters = 2 \<or> numClusters = 3 \<or> numClusters = 4 \<or> numClusters = 5"
    using assms by arith
  then have q: "numClusters * (180 div numClusters) = 180" by auto
  have c: "length (clusterPoints rnd numClusters) = 180"
    using q by (simp add: clusterPoints_def clusterPointCount_double length_generateClusterData)
  have f: "nat \<lfloor>(200::real) * 0.9 / real numClusters\<rfloor> * numClusters = 180"
    using n by auto
  have z: "length (noisePoints rnd') = 20"
    by (simp add: noisePoints_def noiseCount_double)
  have e: "\<forall>i<20. noisePoints rnd' ! i = \<lparr>px = rnd' (2 * i) * 2 - 1, py = rnd' (2 * i + 1) * 2 - 1\<rparr>"
    by (simp add: noisePoints_def noiseCount_double)
  show ?thesis using c f z e by (simp add: allPoints_def)
qed

theorem dbscan_sample_counts_witness:
  "(1::nat) \<le> 3 \<and> (3::nat) \<le> 5 \<and>
   length (clusterPoints (\<lambda>i. 1 / 2) 3) = 180 \<and>
   length (noisePoints (\<lambda>i. 1 / 4)) = 20 \<and>
   length (allPoints (\<lambda>i. 1 / 2) (\<lambda>i. 1 / 4) 3) = 200 \<and>
   real (length (noisePoints (\<lambda>i. 1 / 4))) / real (length (allPoints (\<lambda>i. 1 / 2) (\<lambda>i. 1 / 4) 3))
     = 1 / 10"
proof -
  have h1: "(1::nat) \<le> 3" and h2: "(3::nat) \<le> 5" by simp_all
  show ?thesis
    using h1 h2 dbscan_sample_counts [OF h1 h2, of "\<lambda>i. 1 / 2" "\<lambda>i. 1 / 4"] by blast
qed






end
